theory Spec2Isabelle
  imports Main
begin

section \<open>Data model (types.ts)\<close>

datatype ProcessStatus = IDLE | LOADING | SUCCESS | ERROR

text \<open>
  \<open>PubMedArticle\<close>: the optional fields \<open>titleJa?\<close> and \<open>abstract?\<close> are \<open>None\<close> while
  the property is absent; \<open>fullText?: string | null\<close> has three states: \<open>None\<close> (property
  absent), \<open>Some None\<close> (\<open>null\<close>) and \<open>Some (Some s)\<close>. The field \<open>id\<close> is written
  \<open>id'\<close>, since \<open>id\<close> is the identity function of HOL.
\<close>

record PubMedArticle =
  id' :: string
  pmid :: string
  title :: string
  titleJa :: "string option"
  authors :: string
  journal :: string
  pubdate :: string
  abstract :: "string option"
  fullText :: "string option option"

section \<open>Values that cross the network\<close>

text \<open>
  The JSON documents of the provider are modelled by the properties the code reads, each
  of them possibly absent (\<open>undefined\<close>) where the code tests for it or where its absence
  makes the code throw. Strings are \<open>string\<close>; a JavaScript object used as a dictionary
  is a map.
\<close>

record Author =
  name :: string

record DocSum =
  ds_title :: string
  ds_authors :: "Author list option"
  ds_source :: string
  ds_pubdate :: string

record LinkSetDb =
  linkname :: string
  links :: "string list option"

record LinkSet =
  linksetdbs :: "LinkSetDb list option"

record JsonData =
  result :: "(string \<rightharpoonup> DocSum) option"
  linksets :: "LinkSet list option"

text \<open>
  The document that \<open>DOMParser\<close> builds: elements with a tag name, attributes and
  children, and text nodes.
\<close>

datatype xml = Element string "(string \<times> string) list" "xml list" | Text string

text \<open>
  A \<open>Response\<close> carries what the code reads of it: \<open>ok\<close>, \<open>status\<close>, the value
  \<open>res.json()\<close> resolves to (\<open>None\<close> when it rejects, the body not being JSON) and the
  document parsed from \<open>res.text()\<close>.
\<close>

record Response =
  ok :: bool
  status :: nat
  json_body :: "JsonData option"
  xml_body :: xml

datatype error = NetworkError | HttpError nat | SyntaxError | TypeError | GenerateError

datatype fetch_outcome = NetworkThrow | Responded Response

text \<open>
  Effects are recorded in a trace: every call of \<open>fetch\<close> with its address, every
  \<open>sleep\<close> with its duration, and every call of the text generator with the bundle it
  is given. The network is an oracle that answers a request from the history so far.
\<close>

datatype event =
  EvFetch string
| EvSleep nat
| EvGenerate string "PubMedArticle list" "PubMedArticle list"

type_synonym network = "event list \<Rightarrow> string \<Rightarrow> fetch_outcome"

section \<open>Resilient fetch layer (pubmedService.ts, fetchWithRetry)\<close>

definition EUTILS_BASE :: string where
  "EUTILS_BASE = ''https://eutils.ncbi.nlm.nih.gov/entrez/eutils''"

definition sleep :: "nat \<Rightarrow> event list \<Rightarrow> event list" where
  "sleep ms tr = tr @ [EvSleep ms]"

definition fetch :: "network \<Rightarrow> string \<Rightarrow> event list \<Rightarrow> fetch_outcome \<times> event list" where
  "fetch net url tr = (net tr url, tr @ [EvFetch url])"

text \<open>
  \<open>fetchWithRetry\<close>: the \<open>try\<close> block returns the response, or returns the recursive
  call (whose failure the \<open>catch\<close> clause does not see, the promise being returned
  without \<open>await\<close>), or throws. A throw of \<open>fetch\<close> itself and the
  \<open>throw new Error\<close> of the block are both inside \<open>try\<close>, so both land in the
  \<open>catch\<close> clause, which retries while \<open>retries > 0\<close>. The budget is a natural
  number (the callers pass the default, 3).
\<close>

fun fetchWithRetry ::
  "network \<Rightarrow> string \<Rightarrow> nat \<Rightarrow> event list \<Rightarrow> (error + Response) \<times> event list" where
  "fetchWithRetry net url retries tr =
     (case fetch net url tr of (out, tr1) \<Rightarrow>
        (case out of
           Responded res \<Rightarrow>
             if \<not> ok res then
               (if retries > 0 \<and> (status res = 429 \<or> status res \<ge> 500)
                then fetchWithRetry net url (retries - 1) (sleep 1000 tr1)
                else \<comment> \<open>\<open>throw new Error\<close>, caught below\<close>
                  (if retries > 0 then fetchWithRetry net url (retries - 1) (sleep 1000 tr1)
                   else (Inl (HttpError (status res)), tr1)))
             else (Inr res, tr1)
         | NetworkThrow \<Rightarrow>
             if retries > 0 then fetchWithRetry net url (retries - 1) (sleep 1000 tr1)
             else (Inl NetworkError, tr1)))"

declare fetchWithRetry.simps [simp del]

section \<open>Strings and documents (the platform functions the services call)\<close>

fun join :: "string \<Rightarrow> string list \<Rightarrow> string" where
  "join sep [] = []"
| "join sep [x] = x"
| "join sep (x # y # ys) = x @ sep @ join sep (y # ys)"

text \<open>White space as \<open>trim\<close> and \<open>\s\<close> see it, within the characters of \<open>string\<close>.\<close>

definition is_ws :: "char \<Rightarrow> bool" where
  "is_ws c = (c \<in> set [CHR 0x09, CHR 0x0A, CHR 0x0B, CHR 0x0C, CHR 0x0D, CHR '' ''])"

definition trim :: "string \<Rightarrow> string" where
  "trim s = rev (dropWhile is_ws (rev (dropWhile is_ws s)))"

text \<open>\<open>replace(/\s+/g, ' ')\<close>: every maximal run of white space becomes one space.\<close>

function collapse_ws :: "string \<Rightarrow> string" where
  "collapse_ws [] = []"
| "collapse_ws (c # cs) =
     (if is_ws c then CHR '' '' # collapse_ws (dropWhile is_ws cs) else c # collapse_ws cs)"
  by pat_completeness auto
termination
  by (relation "measure length") (auto simp: length_dropWhile_le less_Suc_eq_le)

fun descendants :: "xml \<Rightarrow> xml list" where
  "descendants (Text s) = []"
| "descendants (Element tag attrs cs) = concat (map (\<lambda>c. c # descendants c) cs)"

fun textContent :: "xml \<Rightarrow> string" where
  "textContent (Text s) = s"
| "textContent (Element tag attrs cs) = concat (map textContent cs)"

fun has_tag :: "string \<Rightarrow> xml \<Rightarrow> bool" where
  "has_tag t (Text s) = False"
| "has_tag t (Element tag attrs cs) = (tag = t)"

fun getAttribute :: "xml \<Rightarrow> string \<Rightarrow> string option" where
  "getAttribute (Text s) a = None"
| "getAttribute (Element tag attrs cs) a = map_of attrs a"

text \<open>On an element: the matching elements below it, in document order.\<close>

definition querySelectorAll :: "xml \<Rightarrow> string \<Rightarrow> xml list" where
  "querySelectorAll node t = filter (has_tag t) (descendants node)"

definition querySelector :: "xml \<Rightarrow> string \<Rightarrow> xml option" where
  "querySelector node t =
     (case querySelectorAll node t of [] \<Rightarrow> None | x # _ \<Rightarrow> Some x)"

text \<open>On the document: the root element takes part in the search.\<close>

definition getElementsByTagName :: "xml \<Rightarrow> string \<Rightarrow> xml list" where
  "getElementsByTagName doc t = filter (has_tag t) (doc # descendants doc)"

definition docQuerySelector :: "xml \<Rightarrow> string \<Rightarrow> xml option" where
  "docQuerySelector doc t =
     (case getElementsByTagName doc t of [] \<Rightarrow> None | x # _ \<Rightarrow> Some x)"

definition json :: "Response \<Rightarrow> error + JsonData" where
  "json res = (case json_body res of None \<Rightarrow> Inl SyntaxError | Some d \<Rightarrow> Inr d)"

text \<open>\<open>Array.prototype.map\<close> with a callback that may throw: the first throw ends it.\<close>

fun mapE :: "('a \<Rightarrow> error + 'b) \<Rightarrow> 'a list \<Rightarrow> error + 'b list" where
  "mapE f [] = Inr []"
| "mapE f (x # xs) =
     (case f x of
        Inl e \<Rightarrow> Inl e
      | Inr y \<Rightarrow> (case mapE f xs of Inl e \<Rightarrow> Inl e | Inr ys \<Rightarrow> Inr (y # ys)))"

section \<open>Summary accessor (fetchSummary)\<close>

definition summaryUrl :: "string list \<Rightarrow> string" where
  "summaryUrl ids =
     EUTILS_BASE @ ''/esummary.fcgi?db=pubmed&id='' @ join '','' ids @ ''&retmode=json''"

text \<open>\<open>d.authors?.map((a) => a.name).join(", ") || "Unknown Authors"\<close>\<close>

definition authorsOf :: "DocSum \<Rightarrow> string" where
  "authorsOf d =
     (case ds_authors d of
        None \<Rightarrow> ''Unknown Authors''
      | Some as \<Rightarrow>
          (let s = join '', '' (map name as) in if s = [] then ''Unknown Authors'' else s))"

text \<open>
  The callback of \<open>ids.map\<close>: \<open>data.result[id]\<close> is \<open>undefined\<close> when the provider has
  no record for \<open>id\<close>, and reading \<open>d.title\<close> of it throws a \<open>TypeError\<close>.
\<close>

definition summaryOf :: "JsonData \<Rightarrow> string \<Rightarrow> error + PubMedArticle" where
  "summaryOf data i =
     (case result data of
        None \<Rightarrow> Inl TypeError
      | Some r \<Rightarrow>
          (case r i of
             None \<Rightarrow> Inl TypeError
           | Some d \<Rightarrow>
               Inr \<lparr>id' = i, pmid = i, title = ds_title d, titleJa = None,
                    authors = authorsOf d, journal = ds_source d, pubdate = ds_pubdate d,
                    abstract = None, fullText = None\<rparr>))"

definition fetchSummary ::
  "network \<Rightarrow> string list \<Rightarrow> event list \<Rightarrow> (error + PubMedArticle list) \<times> event list" where
  "fetchSummary net ids tr =
     (if length ids = 0 then (Inr [], tr)
      else
        (case fetchWithRetry net (summaryUrl ids) 3 tr of
           (Inl e, tr1) \<Rightarrow> (Inl e, tr1)
         | (Inr res, tr1) \<Rightarrow>
             (case json res of
                Inl e \<Rightarrow> (Inl e, tr1)
              | Inr data \<Rightarrow> (mapE (summaryOf data) ids, tr1))))"

section \<open>Abstract accessor (fetchAbstracts)\<close>

definition abstractsUrl :: "string list \<Rightarrow> string" where
  "abstractsUrl ids =
     EUTILS_BASE @ ''/efetch.fcgi?db=pubmed&id='' @ join '','' ids @ ''&retmode=xml''"

text \<open>\<open>node.querySelector("PMID")?.textContent || ""\<close>\<close>

definition nodePmid :: "xml \<Rightarrow> string" where
  "nodePmid node = (case querySelector node ''PMID'' of None \<Rightarrow> [] | Some p \<Rightarrow> textContent p)"

text \<open>One step of the inner \<open>forEach\<close>; a label that is absent or empty gives no prefix.\<close>

definition addSegment :: "string \<Rightarrow> xml \<Rightarrow> string" where
  "addSegment abstract' t =
     abstract'
     @ (case getAttribute t ''Label'' of
          None \<Rightarrow> []
        | Some label \<Rightarrow> if label = [] then [] else ''['' @ label @ ''] '')
     @ textContent t @ '' ''"

definition nodeAbstract :: "xml \<Rightarrow> string" where
  "nodeAbstract node =
     (let abstract' = foldl addSegment [] (querySelectorAll node ''AbstractText'');
          trimmed = trim abstract'
      in if trimmed = [] then ''No abstract available.'' else trimmed)"

definition addResult :: "(string \<rightharpoonup> string) \<Rightarrow> xml \<Rightarrow> (string \<rightharpoonup> string)" where
  "addResult results node = results(nodePmid node \<mapsto> nodeAbstract node)"

definition parseAbstracts :: "xml \<Rightarrow> (string \<rightharpoonup> string)" where
  "parseAbstracts doc = foldl addResult Map.empty (getElementsByTagName doc ''PubmedArticle'')"

definition fetchAbstracts ::
  "network \<Rightarrow> string list \<Rightarrow> event list \<Rightarrow> (error + (string \<rightharpoonup> string)) \<times> event list" where
  "fetchAbstracts net ids tr =
     (if length ids = 0 then (Inr Map.empty, tr)
      else
        (case fetchWithRetry net (abstractsUrl ids) 3 tr of
           (Inl e, tr1) \<Rightarrow> (Inl e, tr1)
         | (Inr res, tr1) \<Rightarrow> (Inr (parseAbstracts (xml_body res)), tr1)))"

section \<open>Full-text resolver (fetchFullText)\<close>

definition linkUrl :: "string \<Rightarrow> string" where
  "linkUrl p =
     EUTILS_BASE @ ''/elink.fcgi?dbfrom=pubmed&linkname=pubmed_pmc&id='' @ p @ ''&retmode=json''"

definition pmcUrl :: "string \<Rightarrow> string" where
  "pmcUrl pmcid = EUTILS_BASE @ ''/efetch.fcgi?db=pmc&id='' @ pmcid @ ''&retmode=xml''"

text \<open>\<open>linkData.linksets?.[0]?.linksetdbs?.[0]?.links?.[0]\<close>, \<open>None\<close> for \<open>undefined\<close>.\<close>

definition firstLink :: "JsonData \<Rightarrow> string option" where
  "firstLink linkData =
     (case linksets linkData of
        None \<Rightarrow> None
      | Some [] \<Rightarrow> None
      | Some (ls # _) \<Rightarrow>
          (case linksetdbs ls of
             None \<Rightarrow> None
           | Some [] \<Rightarrow> None
           | Some (db # _) \<Rightarrow>
               (case links db of None \<Rightarrow> None | Some [] \<Rightarrow> None | Some (l # _) \<Rightarrow> Some l)))"

text \<open>The link is tested for truth: the empty string leaves \<open>pmcid\<close> at \<open>null\<close>.\<close>

definition pmcidOf :: "JsonData \<Rightarrow> string option" where
  "pmcidOf linkData =
     (case firstLink linkData of
        None \<Rightarrow> None
      | Some l \<Rightarrow> if l = [] then None else Some (''PMC'' @ l))"

definition fullTextOf :: "string \<Rightarrow> xml \<Rightarrow> string" where
  "fullTextOf pmcid bodyNode =
     ''[FULL TEXT FROM '' @ pmcid @ '']'' @ [CHR 0x0A]
     @ take 10000 (collapse_ws (textContent bodyNode))"

text \<open>The body of the \<open>try\<close> block, with its throws as \<open>Inl\<close>.\<close>

definition fetchFullText_try ::
  "network \<Rightarrow> string \<Rightarrow> event list \<Rightarrow> (error + string option) \<times> event list" where
  "fetchFullText_try net p tr =
     (case fetchWithRetry net (linkUrl p) 3 tr of
        (Inl e, tr1) \<Rightarrow> (Inl e, tr1)
      | (Inr linkRes, tr1) \<Rightarrow>
          (case json linkRes of
             Inl e \<Rightarrow> (Inl e, tr1)
           | Inr linkData \<Rightarrow>
               (case pmcidOf linkData of
                  None \<Rightarrow> (Inr None, tr1)
                | Some pmcid \<Rightarrow>
                    (case fetchWithRetry net (pmcUrl pmcid) 3 tr1 of
                       (Inl e, tr2) \<Rightarrow> (Inl e, tr2)
                     | (Inr pmcRes, tr2) \<Rightarrow>
                         (case docQuerySelector (xml_body pmcRes) ''body'' of
                            None \<Rightarrow> (Inr None, tr2)
                          | Some bodyNode \<Rightarrow> (Inr (Some (fullTextOf pmcid bodyNode)), tr2))))))"

definition fetchFullText ::
  "network \<Rightarrow> string \<Rightarrow> event list \<Rightarrow> (error + string option) \<times> event list" where
  "fetchFullText net p tr =
     (case fetchFullText_try net p tr of
        (Inl e, tr') \<Rightarrow> (Inr None, tr')
      | (Inr v, tr') \<Rightarrow> (Inr v, tr'))"

section \<open>Reference resolver (fetchReferences)\<close>

definition refsUrl :: "string list \<Rightarrow> string" where
  "refsUrl pmids =
     EUTILS_BASE @ ''/elink.fcgi?dbfrom=pubmed&linkname=pubmed_pubmed_refs&id=''
     @ join ''&id='' pmids @ ''&retmode=json''"

text \<open>\<open>Set.add\<close> on a set kept in insertion order, as \<open>Array.from\<close> lists it.\<close>

definition set_add :: "string list \<Rightarrow> string \<Rightarrow> string list" where
  "set_add refIds link = (if link \<in> set refIds then refIds else refIds @ [link])"

definition addDb :: "string list \<Rightarrow> LinkSetDb \<Rightarrow> string list" where
  "addDb refIds db =
     (case links db of
        None \<Rightarrow> refIds
      | Some ls \<Rightarrow>
          if linkname db = ''pubmed_pubmed_refs'' then foldl set_add refIds (take 3 ls)
          else refIds)"

definition addLinkSet :: "string list \<Rightarrow> LinkSet \<Rightarrow> string list" where
  "addLinkSet refIds ls =
     (case linksetdbs ls of None \<Rightarrow> refIds | Some dbs \<Rightarrow> foldl addDb refIds dbs)"

definition collectRefs :: "JsonData \<Rightarrow> string list" where
  "collectRefs data =
     (case linksets data of None \<Rightarrow> [] | Some lss \<Rightarrow> foldl addLinkSet [] lss)"

definition fetchReferences ::
  "network \<Rightarrow> string list \<Rightarrow> event list \<Rightarrow> (error + string list) \<times> event list" where
  "fetchReferences net pmids tr =
     (if length pmids = 0 then (Inr [], tr)
      else
        (case fetchWithRetry net (refsUrl pmids) 3 tr of
           (Inl e, tr1) \<Rightarrow> (Inl e, tr1)
         | (Inr res, tr1) \<Rightarrow>
             (case json res of
                Inl e \<Rightarrow> (Inl e, tr1)
              | Inr data \<Rightarrow> (Inr (collectRefs data), tr1))))"

section \<open>Synthesis call (geminiService.ts, callGeminiReview)\<close>

text \<open>
  \<open>ai.models.generateContent\<close> belongs to a library, so it is a parameter: it throws or
  resolves to a response whose \<open>text\<close> may be absent. The prompt is a function of the
  three arguments of \<open>callGeminiReview\<close>, which the generator receives here as they are.
\<close>

type_synonym generator =
  "string \<Rightarrow> PubMedArticle list \<Rightarrow> PubMedArticle list \<Rightarrow> error + string option"

definition callGeminiReview ::
  "generator \<Rightarrow> string \<Rightarrow> PubMedArticle list \<Rightarrow> PubMedArticle list \<Rightarrow> event list
   \<Rightarrow> (error + string) \<times> event list" where
  "callGeminiReview gen targetText articlesData referenceData tr =
     (let tr1 = tr @ [EvGenerate targetText articlesData referenceData] in
      case gen targetText articlesData referenceData of
        Inl e \<Rightarrow> (Inl e, tr1)
      | Inr text \<Rightarrow>
          (Inr (case text of
                  None \<Rightarrow> ''Report generation failed.''
                | Some t \<Rightarrow> if t = [] then ''Report generation failed.'' else t),
           tr1))"

section \<open>Enrichment orchestrator (App.tsx, handleDeepReview)\<close>

text \<open>The state of the component: one field per \<open>useState\<close>; a \<open>Set\<close> is kept as the
  list of its members in insertion order.\<close>

record AppState =
  inputText :: string
  translatedText :: string
  meshTerms :: "string list"
  selectedTerms :: "string list"
  analyzeStatus :: ProcessStatus
  articles :: "PubMedArticle list"
  searchStatus :: ProcessStatus
  totalHits :: nat
  yearRange :: nat
  selectedArticleIds :: "string list"
  translatingTitles :: bool
  reviewStatus :: ProcessStatus
  statusMessage :: string
  reportOutput :: string

text \<open>\<open>v || ""\<close> and \<open>v || null\<close> on a dictionary lookup.\<close>

definition or_empty :: "string option \<Rightarrow> string" where
  "or_empty v = (case v of None \<Rightarrow> [] | Some a \<Rightarrow> if a = [] then [] else a)"

definition or_null :: "string option \<Rightarrow> string option" where
  "or_null v = (case v of None \<Rightarrow> None | Some a \<Rightarrow> if a = [] then None else Some a)"

text \<open>The loop over the selected identifiers: \<open>if (text) fullTexts[pmid] = text\<close>.\<close>

fun fullTextLoop ::
  "network \<Rightarrow> string list \<Rightarrow> (string \<rightharpoonup> string) \<Rightarrow> event list
   \<Rightarrow> (error + (string \<rightharpoonup> string)) \<times> event list" where
  "fullTextLoop net [] fullTexts tr = (Inr fullTexts, tr)"
| "fullTextLoop net (p # ps) fullTexts tr =
     (case fetchFullText net p tr of
        (Inl e, tr1) \<Rightarrow> (Inl e, tr1)
      | (Inr text, tr1) \<Rightarrow>
          fullTextLoop net ps
            (case text of
               None \<Rightarrow> fullTexts
             | Some t \<Rightarrow> if t = [] then fullTexts else fullTexts(p \<mapsto> t))
            tr1)"

text \<open>Lines 108 to 118: the references actually enriched.\<close>

definition mergeRef :: "(string \<rightharpoonup> string) \<Rightarrow> PubMedArticle \<Rightarrow> PubMedArticle" where
  "mergeRef refAbs s = s\<lparr>abstract := Some (or_empty (refAbs (id' s)))\<rparr>"

definition refDetail ::
  "network \<Rightarrow> string list \<Rightarrow> event list \<Rightarrow> (error + PubMedArticle list) \<times> event list" where
  "refDetail net refIds tr =
     (if length refIds > 0 then
        (let topRefs = take 8 refIds in
         case fetchSummary net topRefs tr of
           (Inl e, tr1) \<Rightarrow> (Inl e, tr1)
         | (Inr refSummaries, tr1) \<Rightarrow>
             (case fetchAbstracts net topRefs tr1 of
                (Inl e, tr2) \<Rightarrow> (Inl e, tr2)
              | (Inr refAbs, tr2) \<Rightarrow> (Inr (map (mergeRef refAbs) refSummaries), tr2)))
      else (Inr [], tr))"

text \<open>Lines 121 to 127: the selected records with their abstract and full text.\<close>

definition mergeSelected ::
  "(string \<rightharpoonup> string) \<Rightarrow> (string \<rightharpoonup> string) \<Rightarrow> PubMedArticle \<Rightarrow> PubMedArticle" where
  "mergeSelected abstracts fullTexts a =
     a\<lparr>abstract := Some (or_empty (abstracts (id' a))),
       fullText := Some (or_null (fullTexts (id' a)))\<rparr>"

definition selectedData ::
  "PubMedArticle list \<Rightarrow> string list \<Rightarrow> (string \<rightharpoonup> string) \<Rightarrow> (string \<rightharpoonup> string)
   \<Rightarrow> PubMedArticle list" where
  "selectedData arts sel abstracts fullTexts =
     map (mergeSelected abstracts fullTexts) (filter (\<lambda>a. id' a \<in> set sel) arts)"

definition errorReport :: string where
  "errorReport = ''An error occurred during synthesis. Please check the console for details.''"

text \<open>
  The body of the \<open>try\<close> block: the report or the exception, with the state as the
  status messages have left it and the trace.
\<close>

definition deepReviewTry ::
  "network \<Rightarrow> generator \<Rightarrow> AppState \<Rightarrow> event list
   \<Rightarrow> (error + string) \<times> AppState \<times> event list" where
  "deepReviewTry net gen st tr =
     (let ids = selectedArticleIds st;
          st1 = st\<lparr>statusMessage := ''Retrieving abstracts...''\<rparr>
      in case fetchAbstracts net ids tr of
        (Inl e, tr1) \<Rightarrow> (Inl e, st1, tr1)
      | (Inr abstracts, tr1) \<Rightarrow>
      (let st2 = st1\<lparr>statusMessage := ''Attempting full text retrieval (PMC)...''\<rparr>
       in case fullTextLoop net ids Map.empty tr1 of
         (Inl e, tr2) \<Rightarrow> (Inl e, st2, tr2)
       | (Inr fullTexts, tr2) \<Rightarrow>
       (let st3 = st2\<lparr>statusMessage := ''Analyzing citation network...''\<rparr>
        in case fetchReferences net ids tr2 of
          (Inl e, tr3) \<Rightarrow> (Inl e, st3, tr3)
        | (Inr refIds, tr3) \<Rightarrow>
        (case refDetail net refIds tr3 of
           (Inl e, tr4) \<Rightarrow> (Inl e, st3, tr4)
         | (Inr refData, tr4) \<Rightarrow>
         (let st4 = st3\<lparr>statusMessage := ''Gemini is synthesizing report...''\<rparr>;
              sel = selectedData (articles st) (selectedArticleIds st) abstracts fullTexts;
              target = (if translatedText st = [] then inputText st else translatedText st)
          in case callGeminiReview gen target sel refData tr4 of
            (Inl e, tr5) \<Rightarrow> (Inl e, st4, tr5)
          | (Inr report, tr5) \<Rightarrow> (Inr report, st4, tr5))))))"

definition handleDeepReview ::
  "network \<Rightarrow> generator \<Rightarrow> AppState \<Rightarrow> event list \<Rightarrow> AppState \<times> event list" where
  "handleDeepReview net gen st tr =
     (if length (selectedArticleIds st) = 0 then (st, tr)
      else
        (case deepReviewTry net gen (st\<lparr>reviewStatus := LOADING\<rparr>) tr of
           (Inr report, st', tr') \<Rightarrow>
             (st'\<lparr>reportOutput := report, reviewStatus := SUCCESS\<rparr>, tr')
         | (Inl e, st', tr') \<Rightarrow>
             (st'\<lparr>reviewStatus := ERROR, reportOutput := errorReport\<rparr>, tr')))"

text \<open>
  The button that starts the pipeline (App.tsx, lines 364 to 366):
  \<open>onClick={handleDeepReview}\<close> with
  \<open>disabled={reviewStatus === ProcessStatus.LOADING || selectedArticleIds.size === 0}\<close>;
  a disabled button delivers no click.
\<close>

definition synthesizeDisabled :: "AppState \<Rightarrow> bool" where
  "synthesizeDisabled st = (reviewStatus st = LOADING \<or> length (selectedArticleIds st) = 0)"

definition clickSynthesize ::
  "network \<Rightarrow> generator \<Rightarrow> AppState \<Rightarrow> event list \<Rightarrow> AppState \<times> event list" where
  "clickSynthesize net gen st tr =
     (if synthesizeDisabled st then (st, tr) else handleDeepReview net gen st tr)"

section \<open>Example inputs\<close>

text \<open>A provider that answers every request with status 404.\<close>

definition net404 :: network where
  "net404 =
     (\<lambda>tr url. Responded \<lparr>ok = False, status = 404, json_body = None, xml_body = Text []\<rparr>)"

(*PROPERTIES*)
section \<open>The fetch layer\<close>

text \<open>
  One call of \<open>fetchWithRetry\<close>, with the two paths into the \<open>catch\<close> clause merged:
  any response that is not \<open>ok\<close> is retried while the budget lasts, whatever its status.
\<close>

lemma fetchWithRetry_step:
  "fetchWithRetry net url retries tr =
     (case net tr url of
        Responded res \<Rightarrow>
          if ok res then (Inr res, tr @ [EvFetch url])
          else if retries > 0
               then fetchWithRetry net url (retries - 1) (tr @ [EvFetch url, EvSleep 1000])
               else (Inl (HttpError (status res)), tr @ [EvFetch url])
      | NetworkThrow \<Rightarrow>
          if retries > 0
          then fetchWithRetry net url (retries - 1) (tr @ [EvFetch url, EvSleep 1000])
          else (Inl NetworkError, tr @ [EvFetch url]))"
  by (subst fetchWithRetry.simps)
     (simp add: fetch_def sleep_def split: fetch_outcome.splits)

text \<open>A call only adds fetches of its own address and backoff waits to the trace.\<close>

lemma fetchWithRetry_trace:
  "\<exists>es. snd (fetchWithRetry net url n tr) = tr @ es \<and> es \<noteq> [] \<and>
        set es \<subseteq> {EvFetch url, EvSleep 1000}"
proof (induction n arbitrary: tr)
  case 0
  show ?case
    by (subst fetchWithRetry_step) (auto split: fetch_outcome.splits)
next
  case (Suc n)
  obtain es where es: "snd (fetchWithRetry net url n (tr @ [EvFetch url, EvSleep 1000]))
      = (tr @ [EvFetch url, EvSleep 1000]) @ es" "set es \<subseteq> {EvFetch url, EvSleep 1000}"
    using Suc.IH by blast
  have rec: "\<exists>es'. snd (fetchWithRetry net url n (tr @ [EvFetch url, EvSleep 1000])) = tr @ es'
      \<and> es' \<noteq> [] \<and> set es' \<subseteq> {EvFetch url, EvSleep 1000}"
  proof (intro exI conjI)
    show "snd (fetchWithRetry net url n (tr @ [EvFetch url, EvSleep 1000]))
        = tr @ ([EvFetch url, EvSleep 1000] @ es)" using es(1) by simp
    show "[EvFetch url, EvSleep 1000] @ es \<noteq> []" by simp
    show "set ([EvFetch url, EvSleep 1000] @ es) \<subseteq> {EvFetch url, EvSleep 1000}"
      using es(2) by auto
  qed
  show ?case
    by (subst fetchWithRetry_step) (use rec in \<open>auto split: fetch_outcome.splits\<close>)
qed

text \<open>
  C1. A failure status that is not transient should fail at once, with no further fetch
  and no backoff wait. On a provider that always answers 404, a call with the default
  budget of 3 fetches four times and waits three times before it fails: the
  \<open>throw\<close> for the non-transient status sits inside the \<open>try\<close> block and is caught
  by the retrying \<open>catch\<close> clause.
\<close>

theorem fetchWithRetry_retries_non_transient_status:
  "fetchWithRetry net404 ''u'' 3 [] =
     (Inl (HttpError 404),
      [EvFetch ''u'', EvSleep 1000, EvFetch ''u'', EvSleep 1000,
       EvFetch ''u'', EvSleep 1000, EvFetch ''u''])"
  by (simp add: fetchWithRetry.simps net404_def fetch_def sleep_def)

section \<open>Empty input\<close>

text \<open>
  C9. On the empty identifier list, \<open>fetchSummary\<close> returns the empty list,
  \<open>fetchAbstracts\<close> the empty mapping and \<open>fetchReferences\<close> the empty list, and the
  trace is returned as it was: no fetch has been made.
\<close>

theorem empty_input_no_network_call:
  "fetchSummary net [] tr = (Inr [], tr) \<and>
   fetchAbstracts net [] tr = (Inr Map.empty, tr) \<and>
   fetchReferences net [] tr = (Inr [], tr)"
  by (simp add: fetchSummary_def fetchAbstracts_def fetchReferences_def)

end
